theory Spec2Isabelle
  imports Complex_Main "HOL-Library.Multiset"
begin

section \<open>The seat adapter of exchange/bidder.go\<close>

text \<open>
  A shallow embedding of \<^verbatim>\<open>src/exchange/bidder.go\<close>. The collaborators the file only
  calls (the bidder plugin, the currency conversions, the HTTP client, the JSON codec of
  \<^verbatim>\<open>encoding/json\<close>) are parameters of the model. Go pointers that the code tests
  against \<^verbatim>\<open>nil\<close> are options; dereferencing a nil pointer is the outcome
  \<open>Panic\<close>. The elements of the slices of pointers that the plugin returns (the
  outbound requests, the entries of a bid response) are taken to be distinct objects, none
  of them nil. Prices are \<^verbatim>\<open>float64\<close> in the source: the model is polymorphic
  in the price type \<open>'f\<close> and uses only its multiplication and its zero value, so no
  law of real arithmetic is assumed of it.
\<close>

subsection \<open>Errors and outcomes\<close>

datatype error =
    FailedToRequestBids string
  | Timeout string
  | BadServerResponse string
  | DeadlineExceeded
  | GoError string

text \<open>The method \<^verbatim>\<open>Error()\<close> of an error value.\<close>

fun Error_msg :: "error \<Rightarrow> string" where
  "Error_msg (FailedToRequestBids m) = m"
| "Error_msg (Timeout m) = m"
| "Error_msg (BadServerResponse m) = m"
| "Error_msg DeadlineExceeded = ''context deadline exceeded''"
| "Error_msg (GoError m) = m"

datatype 'a outcome = Panic | Returned 'a

subsection \<open>The verb \<^verbatim>\<open>%d\<close> of fmt\<close>

definition digit :: "nat \<Rightarrow> char" where
  "digit n = ''0123456789'' ! (n mod 10)"

fun showNat :: "nat \<Rightarrow> string" where
  "showNat n = (if n < 10 then [digit n] else showNat (n div 10) @ [digit n])"

declare showNat.simps [simp del]

definition formatInt :: "int \<Rightarrow> string" where
  "formatInt i = (if i < 0 then CHR ''-'' # showNat (nat (- i)) else showNat (nat i))"

subsection \<open>Data model\<close>

type_synonym Header = "(string \<times> string list) list"

text \<open>\<^verbatim>\<open>adapters.RequestData\<close> and \<^verbatim>\<open>adapters.ResponseData\<close>.\<close>

record RequestData =
  Method :: string
  Uri :: string
  Body :: string
  Headers :: Header

record ResponseData =
  StatusCode :: int
  RespBody :: string
  RespHeaders :: Header

record httpCallInfo =
  hc_request :: "RequestData option"
  hc_response :: "ResponseData option"
  hc_err :: "error option"

text \<open>\<^verbatim>\<open>openrtb_ext.ExtHttpCall\<close>; Go's zero values are the empty string and 0.\<close>

record ExtHttpCall =
  call_Uri :: string
  call_RequestBody :: string
  call_ResponseBody :: string
  call_Status :: int

text \<open>The part of \<^verbatim>\<open>openrtb.BidRequest\<close> that the file reads or writes.\<close>

record Native =
  Native_Request :: string

record Imp =
  Imp_ID :: string
  Imp_Native :: "Native option"

record App =
  App_ID :: string

record BidRequest =
  Request_ID :: string
  Request_Imp :: "Imp list"
  Request_App :: "App option"
  Cur :: "string list"
  Test :: int

record ExtraRequestInfo =
  PbsEntryPoint :: string

record 'f Bid =
  Bid_ID :: string
  ImpID :: string
  Price :: 'f
  AdM :: string
  Bid_Ext :: string

datatype BidType = BidTypeBanner | BidTypeVideo | BidTypeAudio | BidTypeNative

record ExtBidPrebidVideo =
  Duration :: int
  PrimaryCategory :: string

text \<open>\<^verbatim>\<open>adapters.TypedBid\<close> and \<^verbatim>\<open>adapters.BidderResponse\<close>.\<close>

record 'f TypedBid =
  Bid :: "'f Bid option"
  BidType :: BidType
  BidVideo :: "ExtBidPrebidVideo option"
  DealPriority :: int

record 'f BidderResponse =
  Currency :: string
  Bids :: "'f TypedBid list"

record 'f pbsOrtbBid =
  bid :: "'f Bid option"
  bidType :: BidType
  bidTargets :: "(string \<times> string) list"
  bidVideo :: "ExtBidPrebidVideo option"
  dealPriority :: int

record 'f pbsOrtbSeatBid =
  bids :: "'f pbsOrtbBid list"
  currency :: string
  httpCalls :: "ExtHttpCall list"
  ext :: string

text \<open>
  The native request payload (\<^verbatim>\<open>nativeRequests.Request\<close>) and the native response
  markup (\<^verbatim>\<open>nativeResponse.Response\<close>): the identifiers and types the file reads and
  writes; the version of the markup, the URL of an image and the value of a data asset
  stand for the fields it does not touch.
\<close>

record ReqImage =
  ReqImg_Type :: int

record ReqData =
  ReqData_Type :: int

record ReqAsset =
  ReqAsset_ID :: int
  ReqAsset_Img :: "ReqImage option"
  ReqAsset_Data :: "ReqData option"

record NativeRequest =
  Request_Assets :: "ReqAsset list"

record RespImage =
  Img_Type :: int
  Img_URL :: string

record RespData =
  Data_Type :: int
  Data_Value :: string

record RespAsset =
  Asset_ID :: int
  Asset_Img :: "RespImage option"
  Asset_Data :: "RespData option"

record NativeResponse =
  Ver :: string
  Assets :: "RespAsset list"

subsection \<open>Collaborators\<close>

text \<open>
  \<^verbatim>\<open>json.Unmarshal\<close> into \<^verbatim>\<open>&nativeMarkup\<close> (a pointer to a nil pointer) fails, or
  succeeds and leaves the pointer nil (the JSON literal \<^verbatim>\<open>null\<close>), or succeeds with a
  payload. \<^verbatim>\<open>json.Unmarshal\<close> into \<^verbatim>\<open>&nativePayload\<close> (a struct value) gives the
  payload as far as it was filled, and maybe an error.
\<close>

record jsonCodec =
  UnmarshalResponse :: "string \<Rightarrow> error + NativeResponse option"
  UnmarshalRequest :: "string \<Rightarrow> NativeRequest \<times> error option"
  MarshalResponse :: "NativeResponse \<Rightarrow> error + string"

text \<open>\<^verbatim>\<open>currencies.Conversions\<close>: \<^verbatim>\<open>GetRate(from, to)\<close> returns a rate and an error.\<close>

type_synonym 'f Conversions = "string \<Rightarrow> string \<Rightarrow> 'f \<times> error option"

text \<open>
  \<^verbatim>\<open>http.Request\<close>, \<^verbatim>\<open>http.NewRequest\<close> and \<^verbatim>\<open>ctxhttp.Do\<close> under the context of the
  call: \<open>Do\<close> fails, or answers with a status, the outcome of reading the body
  (\<^verbatim>\<open>ioutil.ReadAll\<close>) and the headers.
\<close>

record httpRequest =
  Req_Method :: string
  Req_URL :: string
  Req_Body :: string
  Req_Header :: Header

datatype doResult = DoError error | DoResponse int "error + string" Header

record httpClient =
  NewRequest :: "string \<Rightarrow> string \<Rightarrow> string \<Rightarrow> error + httpRequest"
  Do :: "httpRequest \<Rightarrow> doResult"

text \<open>
  \<^verbatim>\<open>adapters.Bidder\<close>; \<open>MakeTimeoutNotification\<close> is present when the plugin also
  implements \<^verbatim>\<open>adapters.TimeoutBidder\<close>.
\<close>

record 'f Bidder =
  MakeRequests :: "BidRequest \<Rightarrow> ExtraRequestInfo \<Rightarrow> RequestData list \<times> error list"
  MakeBids :: "BidRequest \<Rightarrow> RequestData option \<Rightarrow> ResponseData option
    \<Rightarrow> 'f BidderResponse option \<times> error list"
  MakeTimeoutNotification :: "(RequestData \<Rightarrow> RequestData option \<times> error list) option"

record 'f bidderAdapter =
  Bidder :: "'f Bidder"
  Client :: httpClient

subsection \<open>Native enrichment\<close>

fun getAssetByID :: "int \<Rightarrow> ReqAsset list \<Rightarrow> error + ReqAsset" where
  "getAssetByID n [] =
     Inl (GoError (''Unable to find asset with ID:'' @ formatInt n @ '' in the request''))"
| "getAssetByID n (asset # assets) =
     (if n = ReqAsset_ID asset then Inr asset else getAssetByID n assets)"

fun getNativeImpByImpID :: "string \<Rightarrow> Imp list \<Rightarrow> error + Native" where
  "getNativeImpByImpID impID [] = Inl (GoError ''Could not find native imp'')"
| "getNativeImpByImpID impID (impInRequest # imps) =
     (if Imp_ID impInRequest = impID \<and> Imp_Native impInRequest \<noteq> None
      then Inr (the (Imp_Native impInRequest))
      else getNativeImpByImpID impID imps)"

text \<open>
  \<^verbatim>\<open>setAssetTypes\<close> writes through the pointers \<^verbatim>\<open>asset.Img\<close> and \<^verbatim>\<open>asset.Data\<close>, so
  the caller's asset changes: the model returns the asset with the error. \<open>setImgType\<close>
  is its first \<^verbatim>\<open>if\<close> block and \<open>setDataType\<close> its second, which runs when the first
  did not return an error.
\<close>

definition setImgType :: "RespAsset \<Rightarrow> NativeRequest \<Rightarrow> RespAsset \<times> error option" where
  "setImgType asset nativePayload =
     (case Asset_Img asset of
        None \<Rightarrow> (asset, None)
      | Some img \<Rightarrow>
          (case getAssetByID (Asset_ID asset) (Request_Assets nativePayload) of
             Inr tempAsset \<Rightarrow>
               (case ReqAsset_Img tempAsset of
                  Some tempImg \<Rightarrow>
                    (if ReqImg_Type tempImg \<noteq> 0
                     then (asset\<lparr>Asset_Img := Some (img\<lparr>Img_Type := ReqImg_Type tempImg\<rparr>)\<rparr>, None)
                     else (asset, None))
                | None \<Rightarrow>
                    (asset, Some (GoError (''Response has an Image asset with ID:''
                       @ formatInt (Asset_ID asset)
                       @ '' present that doesn't exist in the request''))))
           | Inl e \<Rightarrow> (asset, Some e)))"

definition setDataType :: "RespAsset \<Rightarrow> NativeRequest \<Rightarrow> RespAsset \<times> error option" where
  "setDataType asset nativePayload =
     (case Asset_Data asset of
        None \<Rightarrow> (asset, None)
      | Some dat \<Rightarrow>
          (case getAssetByID (Asset_ID asset) (Request_Assets nativePayload) of
             Inr tempAsset \<Rightarrow>
               (case ReqAsset_Data tempAsset of
                  Some tempData \<Rightarrow>
                    (if ReqData_Type tempData \<noteq> 0
                     then (asset\<lparr>Asset_Data := Some (dat\<lparr>Data_Type := ReqData_Type tempData\<rparr>)\<rparr>, None)
                     else (asset, None))
                | None \<Rightarrow>
                    (asset, Some (GoError (''Response has a Data asset with ID:''
                       @ formatInt (Asset_ID asset)
                       @ '' present that doesn't exist in the request''))))
           | Inl e \<Rightarrow> (asset, Some e)))"

definition setAssetTypes :: "RespAsset \<Rightarrow> NativeRequest \<Rightarrow> RespAsset \<times> error option" where
  "setAssetTypes asset nativePayload =
     (case setImgType asset nativePayload of
        (asset1, Some e) \<Rightarrow> (asset1, Some e)
      | (asset1, None) \<Rightarrow> setDataType asset1 nativePayload)"

text \<open>The loop of \<^verbatim>\<open>addNativeTypes\<close> over the assets of the markup.\<close>

fun setAllAssetTypes ::
  "RespAsset list \<Rightarrow> NativeRequest \<Rightarrow> error list \<Rightarrow> RespAsset list \<times> error list" where
  "setAllAssetTypes [] nativePayload errs = ([], errs)"
| "setAllAssetTypes (asset # assets) nativePayload errs =
     (case setAssetTypes asset nativePayload of
        (asset1, r) \<Rightarrow>
          (case setAllAssetTypes assets nativePayload
                  (case r of Some e \<Rightarrow> errs @ [e] | None \<Rightarrow> errs) of
             (assets1, errs1) \<Rightarrow> (asset1 # assets1, errs1)))"

definition addNativeTypes ::
  "jsonCodec \<Rightarrow> 'f Bid option \<Rightarrow> BidRequest \<Rightarrow> (NativeResponse option \<times> error list) outcome" where
  "addNativeTypes json b request =
     (case b of
        None \<Rightarrow> Panic
      | Some b1 \<Rightarrow>
          (case UnmarshalResponse json (AdM b1) of
             Inl e \<Rightarrow> Returned (None, [])
           | Inr None \<Rightarrow> Panic
           | Inr (Some nativeMarkup) \<Rightarrow>
               (if length (Assets nativeMarkup) = 0 then Returned (None, [])
                else
                  (case getNativeImpByImpID (ImpID b1) (Request_Imp request) of
                     Inl e \<Rightarrow> Returned (None, [e])
                   | Inr nativeImp \<Rightarrow>
                       (case UnmarshalRequest json (Native_Request nativeImp) of
                          (nativePayload, r) \<Rightarrow>
                            (case setAllAssetTypes (Assets nativeMarkup) nativePayload
                                    (case r of Some e \<Rightarrow> [e] | None \<Rightarrow> []) of
                               (assets1, errs1) \<Rightarrow>
                                 Returned (Some (nativeMarkup\<lparr>Assets := assets1\<rparr>), errs1)))))))"

subsection \<open>HTTP calls\<close>

text \<open>
  \<^verbatim>\<open>makeExt\<close> reads \<^verbatim>\<open>httpInfo.request\<close> and \<^verbatim>\<open>httpInfo.response\<close> without a nil
  check when \<^verbatim>\<open>httpInfo.err\<close> is nil.
\<close>

definition makeExt :: "httpCallInfo \<Rightarrow> ExtHttpCall outcome" where
  "makeExt httpInfo =
     (if hc_err httpInfo = None then
        (case (hc_request httpInfo, hc_response httpInfo) of
           (Some req, Some resp) \<Rightarrow>
             Returned \<lparr>call_Uri = Uri req, call_RequestBody = Body req,
               call_ResponseBody = RespBody resp, call_Status = StatusCode resp\<rparr>
         | _ \<Rightarrow> Panic)
      else if hc_request httpInfo = None then
        Returned \<lparr>call_Uri = [], call_RequestBody = [], call_ResponseBody = [], call_Status = 0\<rparr>
      else
        Returned \<lparr>call_Uri = Uri (the (hc_request httpInfo)),
          call_RequestBody = Body (the (hc_request httpInfo)),
          call_ResponseBody = [], call_Status = 0\<rparr>)"

text \<open>
  \<^verbatim>\<open>doTimeoutNotification\<close> returns nothing; its effect is the HTTP request it hands to
  \<^verbatim>\<open>ctxhttp.Do\<close>, if any, which is the value of the model.
\<close>

definition doTimeoutNotification ::
  "httpClient \<Rightarrow> (RequestData \<Rightarrow> RequestData option \<times> error list) \<Rightarrow> RequestData
    \<Rightarrow> httpRequest option" where
  "doTimeoutNotification client timeoutBidder req =
     (case timeoutBidder req of
        (toReq, errL) \<Rightarrow>
          (if toReq \<noteq> None \<and> length errL = 0 then
             (case NewRequest client (Method (the toReq)) (Uri (the toReq)) (Body (the toReq)) of
                Inr httpReq \<Rightarrow> Some (httpReq\<lparr>Req_Header := Headers req\<rparr>)
              | Inl e \<Rightarrow> None)
           else None))"

text \<open>
  \<^verbatim>\<open>doRequest\<close>: the call's information, and the timeout notification that the detached
  goroutine sends, if any.
\<close>

definition badStatusMessage :: "int \<Rightarrow> string" where
  "badStatusMessage code =
     ''Server responded with failure status: '' @ formatInt code
       @ ''. Set request.test = 1 for debugging info.''"

definition doRequest ::
  "'f bidderAdapter \<Rightarrow> RequestData \<Rightarrow> httpCallInfo \<times> httpRequest option" where
  "doRequest bidder req =
     (case NewRequest (Client bidder) (Method req) (Uri req) (Body req) of
        Inl e \<Rightarrow> (\<lparr>hc_request = Some req, hc_response = None, hc_err = Some e\<rparr>, None)
      | Inr httpReq \<Rightarrow>
          (case Do (Client bidder) (httpReq\<lparr>Req_Header := Headers req\<rparr>) of
             DoError e \<Rightarrow>
               (if e = DeadlineExceeded then
                  (\<lparr>hc_request = Some req, hc_response = None,
                     hc_err = Some (Timeout (Error_msg e))\<rparr>,
                   (case MakeTimeoutNotification (Bidder bidder) of
                      Some tb \<Rightarrow> doTimeoutNotification (Client bidder) tb req
                    | None \<Rightarrow> None))
                else (\<lparr>hc_request = Some req, hc_response = None, hc_err = Some e\<rparr>, None))
           | DoResponse status readAll header \<Rightarrow>
               (case readAll of
                  Inl e \<Rightarrow> (\<lparr>hc_request = Some req, hc_response = None, hc_err = Some e\<rparr>, None)
                | Inr respBody \<Rightarrow>
                    (\<lparr>hc_request = Some req,
                       hc_response = Some \<lparr>StatusCode = status, RespBody = respBody,
                         RespHeaders = header\<rparr>,
                       hc_err = (if status < 200 \<or> status \<ge> 400
                                 then Some (BadServerResponse (badStatusMessage status))
                                 else None)\<rparr>, None))))"

subsection \<open>The response normalizer\<close>

definition defaultCurrency :: string where
  "defaultCurrency = ''USD''"

text \<open>
  The loop over \<^verbatim>\<open>request.Cur\<close>: the state is \<^verbatim>\<open>conversionRate\<close>, \<^verbatim>\<open>err\<close> and
  \<^verbatim>\<open>seatBid.currency\<close>; the loop breaks at the first rate found.
\<close>

fun getRateLoop ::
  "'f Conversions \<Rightarrow> string \<Rightarrow> string list \<Rightarrow> 'f \<times> error option \<times> string
    \<Rightarrow> 'f \<times> error option \<times> string" where
  "getRateLoop conversions from [] st = st"
| "getRateLoop conversions from (bidReqCur # curs) (conversionRate, e, cur) =
     (case conversions from bidReqCur of
        (rate, None) \<Rightarrow> (rate, None, bidReqCur)
      | (rate, Some e1) \<Rightarrow> getRateLoop conversions from curs (rate, Some e1, cur))"

text \<open>
  The loop over \<^verbatim>\<open>bidResponse.Bids\<close> for a mobile app request: the bids with their
  markup replaced, and the errors.
\<close>

definition enrichBid ::
  "jsonCodec \<Rightarrow> BidRequest \<Rightarrow> 'f TypedBid \<Rightarrow> error list \<Rightarrow> ('f TypedBid \<times> error list) outcome" where
  "enrichBid json request tb errs =
     (if BidType tb = BidTypeNative then
        (case addNativeTypes json (Bid tb) request of
           Panic \<Rightarrow> Panic
         | Returned (nativeMarkup, moreErrs) \<Rightarrow>
             (case nativeMarkup of
                None \<Rightarrow> Returned (tb, errs @ moreErrs)
              | Some m \<Rightarrow>
                  (case MarshalResponse json m of
                     Inl e \<Rightarrow> Returned (tb, (errs @ moreErrs) @ [e])
                   | Inr markup \<Rightarrow>
                       (case Bid tb of
                          None \<Rightarrow> Panic
                        | Some b \<Rightarrow>
                            Returned (tb\<lparr>Bid := Some (b\<lparr>AdM := markup\<rparr>)\<rparr>, errs @ moreErrs)))))
      else Returned (tb, errs))"

fun enrichBids ::
  "jsonCodec \<Rightarrow> BidRequest \<Rightarrow> 'f TypedBid list \<Rightarrow> error list
    \<Rightarrow> ('f TypedBid list \<times> error list) outcome" where
  "enrichBids json request [] errs = Returned ([], errs)"
| "enrichBids json request (tb # tbs) errs =
     (case enrichBid json request tb errs of
        Panic \<Rightarrow> Panic
      | Returned (tb1, errs1) \<Rightarrow>
          (case enrichBids json request tbs errs1 of
             Panic \<Rightarrow> Panic
           | Returned (tbs1, errs2) \<Rightarrow> Returned (tb1 # tbs1, errs2)))"

text \<open>The loop that adjusts the prices and appends the bids to \<^verbatim>\<open>seatBid.bids\<close>.\<close>

definition adjustPrice :: "'f::times \<Rightarrow> 'f \<Rightarrow> 'f Bid option \<Rightarrow> 'f Bid option" where
  "adjustPrice bidAdjustment conversionRate b =
     (case b of
        None \<Rightarrow> None
      | Some b1 \<Rightarrow> Some (b1\<lparr>Price := Price b1 * bidAdjustment * conversionRate\<rparr>))"

fun appendBids ::
  "'f::times \<Rightarrow> 'f \<Rightarrow> 'f TypedBid list \<Rightarrow> 'f pbsOrtbBid list \<Rightarrow> 'f pbsOrtbBid list" where
  "appendBids bidAdjustment conversionRate [] acc = acc"
| "appendBids bidAdjustment conversionRate (tb # tbs) acc =
     appendBids bidAdjustment conversionRate tbs
       (acc @ [\<lparr>bid = adjustPrice bidAdjustment conversionRate (Bid tb),
                bidType = BidType tb, bidTargets = [],
                bidVideo = BidVideo tb, dealPriority = DealPriority tb\<rparr>])"

text \<open>
  What \<^verbatim>\<open>requestBid\<close> does with a bid response that is not nil. The request comes back
  with the outcome, since \<^verbatim>\<open>request.Cur\<close> is written through the caller's pointer.
\<close>

definition processBidResponse ::
  "jsonCodec \<Rightarrow> 'f::{times,zero} \<Rightarrow> 'f Conversions \<Rightarrow> BidRequest \<Rightarrow> 'f pbsOrtbSeatBid
    \<Rightarrow> error list \<Rightarrow> 'f BidderResponse
    \<Rightarrow> BidRequest \<times> ('f pbsOrtbSeatBid \<times> error list) outcome" where
  "processBidResponse json bidAdjustment conversions request seatBid errs bidResponse =
     (let responseCurrency =
            (if Currency bidResponse = [] then defaultCurrency else Currency bidResponse);
          request1 =
            (if length (Cur request) = 0 then request\<lparr>Cur := [defaultCurrency]\<rparr> else request)
      in case getRateLoop conversions responseCurrency (Cur request1) (0, None, currency seatBid) of
           (conversionRate, e, cur) \<Rightarrow>
             (case (if Request_App request1 \<noteq> None
                    then enrichBids json request1 (Bids bidResponse) errs
                    else Returned (Bids bidResponse, errs)) of
                Panic \<Rightarrow> (request1, Panic)
              | Returned (tbs, errs1) \<Rightarrow>
                  (case e of
                     None \<Rightarrow>
                       (request1,
                        Returned (seatBid\<lparr>currency := cur,
                                    bids := appendBids bidAdjustment conversionRate tbs (bids seatBid)\<rparr>,
                                  errs1))
                   | Some e1 \<Rightarrow>
                       (request1, Returned (seatBid\<lparr>currency := cur\<rparr>, errs1 @ [e1])))))"

text \<open>The body of the loop that receives one \<^verbatim>\<open>httpCallInfo\<close> from the channel.\<close>

definition collectOne ::
  "'f::{times,zero} bidderAdapter \<Rightarrow> jsonCodec \<Rightarrow> 'f \<Rightarrow> 'f Conversions
    \<Rightarrow> BidRequest \<times> 'f pbsOrtbSeatBid \<times> error list \<Rightarrow> httpCallInfo
    \<Rightarrow> BidRequest \<times> ('f pbsOrtbSeatBid \<times> error list) outcome" where
  "collectOne bidder json bidAdjustment conversions st httpInfo =
     (case st of
        (request, seatBid, errs) \<Rightarrow>
          (case (if Test request = 1
                 then (case makeExt httpInfo of
                         Panic \<Rightarrow> Panic
                       | Returned call \<Rightarrow> Returned (seatBid\<lparr>httpCalls := httpCalls seatBid @ [call]\<rparr>))
                 else Returned seatBid) of
             Panic \<Rightarrow> (request, Panic)
           | Returned seatBid1 \<Rightarrow>
               (case hc_err httpInfo of
                  Some e \<Rightarrow> (request, Returned (seatBid1, errs @ [e]))
                | None \<Rightarrow>
                    (case MakeBids (Bidder bidder) request (hc_request httpInfo) (hc_response httpInfo) of
                       (bidResponse, moreErrs) \<Rightarrow>
                         (case bidResponse of
                            None \<Rightarrow> (request, Returned (seatBid1, errs @ moreErrs))
                          | Some r \<Rightarrow>
                              processBidResponse json bidAdjustment conversions request seatBid1
                                (errs @ moreErrs) r)))))"

fun collectLoop ::
  "'f::{times,zero} bidderAdapter \<Rightarrow> jsonCodec \<Rightarrow> 'f \<Rightarrow> 'f Conversions \<Rightarrow> httpCallInfo list
    \<Rightarrow> BidRequest \<times> 'f pbsOrtbSeatBid \<times> error list
    \<Rightarrow> BidRequest \<times> ('f pbsOrtbSeatBid \<times> error list) outcome" where
  "collectLoop bidder json bidAdjustment conversions [] st = (fst st, Returned (snd st))"
| "collectLoop bidder json bidAdjustment conversions (httpInfo # rest) st =
     (case collectOne bidder json bidAdjustment conversions st httpInfo of
        (request1, Panic) \<Rightarrow> (request1, Panic)
      | (request1, Returned (seatBid1, errs1)) \<Rightarrow>
          collectLoop bidder json bidAdjustment conversions rest (request1, seatBid1, errs1))"

text \<open>
  The channel: the requests run concurrently and their results arrive in the order of
  completion. A schedule (a list of numbers) picks, at each receive, which of the calls
  still in flight completes next. Every delivery is a permutation of the results, and
  every permutation is the delivery of some schedule (\<open>mset_deliver\<close>,
  \<open>deliver_any_order\<close>). With a single request the call is made on the spot, and the
  delivery of one result is that result.
\<close>

fun deliver :: "nat list \<Rightarrow> 'a list \<Rightarrow> 'a list" where
  "deliver [] xs = xs"
| "deliver (n # ns) xs =
     (if xs = [] then []
      else xs ! (n mod length xs)
             # deliver ns (take (n mod length xs) xs @ drop (Suc (n mod length xs)) xs))"

definition noRequestsMessage :: string where
  "noRequestsMessage =
     ''The adapter failed to generate any bid requests, but also failed to generate an error explaining why''"

definition requestBid ::
  "'f::{times,zero} bidderAdapter \<Rightarrow> jsonCodec \<Rightarrow> nat list \<Rightarrow> BidRequest \<Rightarrow> string \<Rightarrow> 'f
    \<Rightarrow> 'f Conversions \<Rightarrow> ExtraRequestInfo
    \<Rightarrow> BidRequest \<times> ('f pbsOrtbSeatBid option \<times> error list) outcome" where
  "requestBid bidder json schedule request name bidAdjustment conversions reqInfo =
     (case MakeRequests (Bidder bidder) request reqInfo of
        (reqData, errs) \<Rightarrow>
          (if length reqData = 0 then
             (request,
              Returned (None,
                if length errs = 0 then errs @ [FailedToRequestBids noRequestsMessage] else errs))
           else
             (case collectLoop bidder json bidAdjustment conversions
                     (deliver schedule (map (\<lambda>data. fst (doRequest bidder data)) reqData))
                     (request, \<lparr>bids = [], currency = defaultCurrency, httpCalls = [], ext = []\<rparr>, errs) of
                (request1, Panic) \<Rightarrow> (request1, Panic)
              | (request1, Returned (seatBid, errs1)) \<Rightarrow> (request1, Returned (Some seatBid, errs1)))))"

section \<open>Concrete inputs\<close>

text \<open>
  A plugin that makes one request per address it is given, an HTTP client whose server
  answers 200 with the address as the body (503 at one address, no answer before the
  deadline at another), and a table of conversion rates. Prices are real numbers here.
\<close>

definition exReq :: "string \<Rightarrow> RequestData" where
  "exReq u = \<lparr>Method = ''POST'', Uri = u, Body = ''{}'',
     Headers = [(''Content-Type'', [''application/json''])]\<rparr>"

definition exBid :: "string \<Rightarrow> string \<Rightarrow> real Bid" where
  "exBid n markup = \<lparr>Bid_ID = n, ImpID = ''imp1'', Price = 1, AdM = markup, Bid_Ext = []\<rparr>"

definition exMakeBids ::
  "BidRequest \<Rightarrow> RequestData option \<Rightarrow> ResponseData option
    \<Rightarrow> real BidderResponse option \<times> error list" where
  "exMakeBids request req resp =
     (case resp of
        None \<Rightarrow> (None, [])
      | Some r \<Rightarrow>
          (if RespBody r = ''http://eur'' then
             (Some \<lparr>Currency = ''EUR'',
                Bids = [\<lparr>Bid = Some (exBid ''b1'' ''<div/>''), BidType = BidTypeBanner,
                         BidVideo = None, DealPriority = 0\<rparr>]\<rparr>, [])
           else if RespBody r = ''http://jpy'' then
             (Some \<lparr>Currency = ''JPY'',
                Bids = [\<lparr>Bid = Some (exBid ''b2'' ''<div/>''), BidType = BidTypeBanner,
                         BidVideo = None, DealPriority = 0\<rparr>]\<rparr>, [])
           else if RespBody r = ''http://nil'' then
             (Some \<lparr>Currency = [],
                Bids = [\<lparr>Bid = None, BidType = BidTypeNative,
                         BidVideo = None, DealPriority = 5\<rparr>]\<rparr>, [])
           else (None, [GoError ''no bids''])))"

definition exNotify :: "RequestData \<Rightarrow> RequestData option \<times> error list" where
  "exNotify req =
     (Some \<lparr>Method = ''GET'', Uri = Uri req @ ''/timeout'', Body = [],
        Headers = [(''X-Notify'', [''1''])]\<rparr>, [])"

definition exBidder :: "string list \<Rightarrow> real Bidder" where
  "exBidder uris = \<lparr>MakeRequests = (\<lambda>request reqInfo. (map exReq uris, [])),
     MakeBids = exMakeBids, MakeTimeoutNotification = Some exNotify\<rparr>"

definition exClient :: httpClient where
  "exClient = \<lparr>NewRequest = (\<lambda>m u b.
        if CHR '' '' \<in> set m then Inl (GoError ''net/http: invalid method'')
        else Inr \<lparr>Req_Method = m, Req_URL = u, Req_Body = b, Req_Header = []\<rparr>),
     Do = (\<lambda>r.
        if Req_URL r = ''http://down'' then DoResponse 503 (Inr ''unavailable'') []
        else if Req_URL r = ''http://slow'' then DoError DeadlineExceeded
        else DoResponse 200 (Inr (Req_URL r)) [])\<rparr>"

definition exAdapter :: "string list \<Rightarrow> real bidderAdapter" where
  "exAdapter uris = \<lparr>Bidder = exBidder uris, Client = exClient\<rparr>"

definition exJson :: jsonCodec where
  "exJson = \<lparr>UnmarshalResponse = (\<lambda>s.
        if s = ''null'' then Inr None else Inl (GoError ''invalid character'')),
     UnmarshalRequest = (\<lambda>s. (\<lparr>Request_Assets = []\<rparr>, Some (GoError ''unexpected end of JSON input''))),
     MarshalResponse = (\<lambda>m. Inl (GoError ''unsupported''))\<rparr>"

definition exConversions :: "real Conversions" where
  "exConversions from to =
     (if from = to then (1, None)
      else if from = ''EUR'' \<and> to = ''GBP'' then (2, None)
      else if from = ''EUR'' \<and> to = ''USD'' then (8, None)
      else if from = ''JPY'' \<and> to = ''USD'' then (4, None)
      else (0, Some (GoError (''no conversion rate from '' @ from @ '' to '' @ to))))"

definition exRequest :: "string list \<Rightarrow> BidRequest" where
  "exRequest curs = \<lparr>Request_ID = ''auction-1'',
     Request_Imp = [\<lparr>Imp_ID = ''imp1'', Imp_Native = None\<rparr>],
     Request_App = None, Cur = curs, Test = 0\<rparr>"

definition exInfo :: ExtraRequestInfo where
  "exInfo = \<lparr>PbsEntryPoint = ''auction''\<rparr>"

section \<open>Properties\<close>

subsection \<open>Auxiliary facts\<close>

lemma length_deliver: "length (deliver s xs) = length xs"
proof (induction s arbitrary: xs)
  case Nil
  then show ?case by simp
next
  case (Cons n ns)
  show ?case
  proof (cases "xs = []")
    case True
    then show ?thesis by simp
  next
    case False
    then have "n mod length xs < length xs" by simp
    then have "length (take (n mod length xs) xs @ drop (Suc (n mod length xs)) xs) = length xs - 1"
      by simp
    with Cons.IH False show ?thesis by (simp del: length_0_conv)
  qed
qed

lemma set_deliver: "set (deliver s xs) = set xs"
proof (induction s arbitrary: xs)
  case Nil
  then show ?case by simp
next
  case (Cons n ns)
  show ?case
  proof (cases "xs = []")
    case True
    then show ?thesis by simp
  next
    case False
    let ?i = "n mod length xs"
    from False have i: "?i < length xs" by simp
    have "xs = take ?i xs @ xs ! ?i # drop (Suc ?i) xs"
      using i by (rule id_take_nth_drop)
    then have "set xs = insert (xs ! ?i) (set (take ?i xs @ drop (Suc ?i) xs))"
      by (metis Un_insert_right list.simps(15) set_append)
    with Cons.IH False show ?thesis by simp
  qed
qed

lemma mset_deliver: "mset (deliver s xs) = mset xs"
proof (induction s arbitrary: xs)
  case Nil
  then show ?case by simp
next
  case (Cons n ns)
  show ?case
  proof (cases "xs = []")
    case True
    then show ?thesis by simp
  next
    case False
    let ?i = "n mod length xs"
    from False have i: "?i < length xs" by simp
    have "xs = take ?i xs @ xs ! ?i # drop (Suc ?i) xs"
      using i by (rule id_take_nth_drop)
    then have "mset xs = add_mset (xs ! ?i) (mset (take ?i xs @ drop (Suc ?i) xs))"
      by (metis mset.simps(2) mset_append union_mset_add_mset_right)
    with Cons.IH False show ?thesis by simp
  qed
qed

lemma deliver_any_order:
  assumes "mset ys = mset xs"
  shows "\<exists>s. deliver s xs = ys"
  using assms
proof (induction ys arbitrary: xs)
  case Nil
  then have "xs = []" by simp
  then have "deliver [] xs = []" by simp
  then show ?case by blast
next
  case (Cons y ys)
  then have "y \<in> set xs" by (metis list.set_intros(1) mset_eq_setD)
  then obtain i where i: "i < length xs" and y: "xs ! i = y"
    by (auto simp: in_set_conv_nth)
  let ?rest = "take i xs @ drop (Suc i) xs"
  have "xs = take i xs @ y # drop (Suc i) xs"
    using i y id_take_nth_drop by blast
  then have "mset xs = add_mset y (mset ?rest)"
    by (metis mset.simps(2) mset_append union_mset_add_mset_right)
  with Cons.prems have "mset ys = mset ?rest" by simp
  from Cons.IH[OF this] obtain s where s: "deliver s ?rest = ys" by blast
  from i have ne: "xs \<noteq> []" by auto
  from i have "i mod length xs = i" by simp
  with s y ne have "deliver (i # s) xs = y # ys" by simp
  then show ?case by blast
qed

subsection \<open>No outbound requests\<close>

text \<open>
  Claim C1, amended in the message only. When \<open>MakeRequests\<close> returns no outbound
  request, \<open>requestBid\<close> returns a nil seat-bid with the plugin's errors, and with
  exactly one \<open>FailedToRequestBids\<close> error when the plugin gave none; the message of
  that error starts with "The adapter". A nil seat-bid is returned in no other case.
\<close>

theorem requestBid_no_requests:
  "(fst (MakeRequests (Bidder bidder) request reqInfo) = [] \<longrightarrow>
      requestBid bidder json schedule request name bidAdjustment conversions reqInfo =
        (request,
         Returned (None,
           if snd (MakeRequests (Bidder bidder) request reqInfo) = []
           then [FailedToRequestBids
                  ''The adapter failed to generate any bid requests, but also failed to generate an error explaining why'']
           else snd (MakeRequests (Bidder bidder) request reqInfo)))) \<and>
   ((\<exists>request1 errs.
       requestBid bidder json schedule request name bidAdjustment conversions reqInfo =
         (request1, Returned (None, errs))) \<longrightarrow>
      fst (MakeRequests (Bidder bidder) request reqInfo) = [])"
  by (auto simp: requestBid_def noRequestsMessage_def split: prod.splits outcome.splits if_splits)

theorem requestBid_no_requests_witness:
  "fst (MakeRequests (Bidder (exAdapter [])) (exRequest []) exInfo) = [] \<and>
   requestBid (exAdapter []) exJson [] (exRequest []) ''bidder'' 1 exConversions exInfo =
     (exRequest [],
      Returned (None,
        [FailedToRequestBids
           ''The adapter failed to generate any bid requests, but also failed to generate an error explaining why'']))"
proof -
  have h: "fst (MakeRequests (Bidder (exAdapter [])) (exRequest []) exInfo) = []"
    by (simp add: exAdapter_def exBidder_def)
  have e: "snd (MakeRequests (Bidder (exAdapter [])) (exRequest []) exInfo) = []"
    by (simp add: exAdapter_def exBidder_def)
  from requestBid_no_requests[of "exAdapter []" "exRequest []" exInfo exJson "[]" "''bidder''" 1 exConversions]
  show ?thesis using h e by simp
qed

text \<open>The message as the claim words it is not the message of the code.\<close>

theorem requestBid_no_requests_counterexample:
  "fst (MakeRequests (Bidder (exAdapter [])) (exRequest []) exInfo) = [] \<and>
   snd (MakeRequests (Bidder (exAdapter [])) (exRequest []) exInfo) = [] \<and>
   snd (requestBid (exAdapter []) exJson [] (exRequest []) ''bidder'' 1 exConversions exInfo) \<noteq>
     Returned (None,
       [FailedToRequestBids
          ''adapter failed to generate any bid requests, but also failed to generate an error explaining why''])"
  by (simp add: requestBid_def exAdapter_def exBidder_def noRequestsMessage_def)

subsection \<open>The timeout notification\<close>

text \<open>
  Claim C10. A timeout notification is sent only when \<open>MakeTimeoutNotification\<close>
  returns a request that is not nil and no error. The HTTP request sent is the one that
  \<open>NewRequest\<close> builds from the method, the URI and the body of the notification
  request, with the headers of the outbound request that timed out; the headers of the
  notification request have no effect on it.
\<close>

theorem doTimeoutNotification_request:
  "(doTimeoutNotification client timeoutBidder req = Some sent \<longrightarrow>
      (\<exists>toReq httpReq.
         timeoutBidder req = (Some toReq, []) \<and>
         NewRequest client (Method toReq) (Uri toReq) (Body toReq) = Inr httpReq \<and>
         sent = httpReq\<lparr>Req_Header := Headers req\<rparr>)) \<and>
   (timeoutBidder req = (Some toReq, []) \<longrightarrow>
    NewRequest client (Method toReq) (Uri toReq) (Body toReq) = Inr httpReq \<longrightarrow>
      doTimeoutNotification client timeoutBidder req = Some (httpReq\<lparr>Req_Header := Headers req\<rparr>)) \<and>
   doTimeoutNotification client
       (\<lambda>r. (map_option (\<lambda>t. t\<lparr>Headers := h\<rparr>) (fst (timeoutBidder r)), snd (timeoutBidder r))) req =
     doTimeoutNotification client timeoutBidder req"
  by (cases "timeoutBidder req"; cases "fst (timeoutBidder req)")
     (auto simp: doTimeoutNotification_def split: sum.splits if_splits)

theorem doTimeoutNotification_request_witness:
  "exNotify (exReq ''http://slow'') =
     (Some \<lparr>Method = ''GET'', Uri = ''http://slow/timeout'', Body = [],
        Headers = [(''X-Notify'', [''1''])]\<rparr>, []) \<and>
   NewRequest exClient ''GET'' ''http://slow/timeout'' [] =
     Inr \<lparr>Req_Method = ''GET'', Req_URL = ''http://slow/timeout'', Req_Body = [], Req_Header = []\<rparr> \<and>
   doTimeoutNotification exClient exNotify (exReq ''http://slow'') =
     Some \<lparr>Req_Method = ''GET'', Req_URL = ''http://slow/timeout'', Req_Body = [],
       Req_Header = [(''Content-Type'', [''application/json''])]\<rparr>"
proof -
  let ?toReq = "\<lparr>Method = ''GET'', Uri = ''http://slow/timeout'', Body = [],
        Headers = [(''X-Notify'', [''1''])]\<rparr>"
  let ?httpReq = "\<lparr>Req_Method = ''GET'', Req_URL = ''http://slow/timeout'', Req_Body = [], Req_Header = []\<rparr>"
  have a: "exNotify (exReq ''http://slow'') = (Some ?toReq, [])"
    by (simp add: exNotify_def exReq_def)
  have b: "NewRequest exClient (Method ?toReq) (Uri ?toReq) (Body ?toReq) = Inr ?httpReq"
    by (simp add: exClient_def)
  from doTimeoutNotification_request[of exClient exNotify "exReq ''http://slow''" _ ?toReq ?httpReq] a b
  have "doTimeoutNotification exClient exNotify (exReq ''http://slow'') =
          Some (?httpReq\<lparr>Req_Header := Headers (exReq ''http://slow'')\<rparr>)"
    by blast
  with a b show ?thesis by (simp add: exReq_def)
qed

subsection \<open>A failure status\<close>

text \<open>
  Claim C5. When the HTTP call completes with a status below 200 or at least 400,
  \<open>doRequest\<close> returns the outbound request, the full response (status, body, headers)
  and a \<open>BadServerResponse\<close> error whose message carries the status code; the collector
  then appends that error and adds no bid (the plugin's \<open>MakeBids\<close> is not consulted).
\<close>

theorem doRequest_bad_status:
  assumes "NewRequest (Client bidder) (Method req) (Uri req) (Body req) = Inr httpReq"
    and "Do (Client bidder) (httpReq\<lparr>Req_Header := Headers req\<rparr>) = DoResponse status (Inr respBody) header"
    and "status < 200 \<or> status \<ge> 400"
  shows "fst (doRequest bidder req) =
           \<lparr>hc_request = Some req,
            hc_response = Some \<lparr>StatusCode = status, RespBody = respBody, RespHeaders = header\<rparr>,
            hc_err = Some (BadServerResponse
              (''Server responded with failure status: '' @ formatInt status
                 @ ''. Set request.test = 1 for debugging info.''))\<rparr> \<and>
         (\<exists>seatBid1.
            collectOne bidder json bidAdjustment conversions (request, seatBid, errs)
                (fst (doRequest bidder req)) =
              (request,
               Returned (seatBid1,
                 errs @ [BadServerResponse
                   (''Server responded with failure status: '' @ formatInt status
                      @ ''. Set request.test = 1 for debugging info.'')])) \<and>
            bids seatBid1 = bids seatBid \<and> currency seatBid1 = currency seatBid)"
  using assms
  by (auto simp: doRequest_def badStatusMessage_def collectOne_def makeExt_def)

theorem doRequest_bad_status_witness:
  "NewRequest (Client (exAdapter [''http://down''])) (Method (exReq ''http://down''))
       (Uri (exReq ''http://down'')) (Body (exReq ''http://down'')) =
     Inr \<lparr>Req_Method = ''POST'', Req_URL = ''http://down'', Req_Body = ''{}'', Req_Header = []\<rparr> \<and>
   Do (Client (exAdapter [''http://down'']))
       (\<lparr>Req_Method = ''POST'', Req_URL = ''http://down'', Req_Body = ''{}'', Req_Header = []\<rparr>
          \<lparr>Req_Header := Headers (exReq ''http://down'')\<rparr>) =
     DoResponse 503 (Inr ''unavailable'') [] \<and>
   ((503::int) < 200 \<or> (503::int) \<ge> 400) \<and>
   fst (doRequest (exAdapter [''http://down'']) (exReq ''http://down'')) =
     \<lparr>hc_request = Some (exReq ''http://down''),
      hc_response = Some \<lparr>StatusCode = 503, RespBody = ''unavailable'', RespHeaders = []\<rparr>,
      hc_err = Some (BadServerResponse
        ''Server responded with failure status: 503. Set request.test = 1 for debugging info.'')\<rparr>"
proof -
  have a: "NewRequest (Client (exAdapter [''http://down''])) (Method (exReq ''http://down''))
       (Uri (exReq ''http://down'')) (Body (exReq ''http://down'')) =
     Inr \<lparr>Req_Method = ''POST'', Req_URL = ''http://down'', Req_Body = ''{}'', Req_Header = []\<rparr>"
    by (simp add: exAdapter_def exClient_def exReq_def)
  have b: "Do (Client (exAdapter [''http://down'']))
       (\<lparr>Req_Method = ''POST'', Req_URL = ''http://down'', Req_Body = ''{}'', Req_Header = []\<rparr>
          \<lparr>Req_Header := Headers (exReq ''http://down'')\<rparr>) =
     DoResponse 503 (Inr ''unavailable'') []"
    by (simp add: exAdapter_def exClient_def exReq_def)
  have c: "(503::int) < 200 \<or> (503::int) \<ge> 400" by simp
  have d: "formatInt 503 = ''503''"
    by (simp add: formatInt_def showNat.simps digit_def)
  from doRequest_bad_status[OF a b c] d a b show ?thesis by simp
qed

subsection \<open>The borrowed request\<close>

lemma processBidResponse_unfold:
  assumes r1: "request1 = (if length (Cur request) = 0 then request\<lparr>Cur := [defaultCurrency]\<rparr> else request)"
    and g: "getRateLoop conversions
              (if Currency bidResponse = [] then defaultCurrency else Currency bidResponse)
              (Cur request1) (0, None, currency seatBid) = (rate, e, cur)"
  shows "processBidResponse json bidAdjustment conversions request seatBid errs bidResponse =
     (case (if Request_App request1 \<noteq> None
            then enrichBids json request1 (Bids bidResponse) errs
            else Returned (Bids bidResponse, errs)) of
        Panic \<Rightarrow> (request1, Panic)
      | Returned (tbs, errs1) \<Rightarrow>
          (case e of
             None \<Rightarrow>
               (request1,
                Returned (seatBid\<lparr>currency := cur,
                            bids := appendBids bidAdjustment rate tbs (bids seatBid)\<rparr>,
                          errs1))
           | Some e1 \<Rightarrow> (request1, Returned (seatBid\<lparr>currency := cur\<rparr>, errs1 @ [e1]))))"
  unfolding processBidResponse_def Let_def r1[symmetric] g prod.case
  by (rule refl)

lemma processBidResponse_request:
  "fst (processBidResponse json bidAdjustment conversions request seatBid errs bidResponse) =
     (if Cur request = [] then request\<lparr>Cur := [''USD'']\<rparr> else request)"
proof -
  define request1 where
    "request1 = (if length (Cur request) = 0 then request\<lparr>Cur := [defaultCurrency]\<rparr> else request)"
  obtain rate e cur where g:
    "getRateLoop conversions
       (if Currency bidResponse = [] then defaultCurrency else Currency bidResponse)
       (Cur request1) (0, None, currency seatBid) = (rate, e, cur)"
    by (metis prod_cases3)
  have "fst (processBidResponse json bidAdjustment conversions request seatBid errs bidResponse) = request1"
    unfolding processBidResponse_unfold[OF request1_def g]
    by (simp split: outcome.split option.split prod.split)
  then show ?thesis by (simp add: request1_def defaultCurrency_def)
qed

lemma collectOne_request:
  "fst (collectOne bidder json bidAdjustment conversions (request, seatBid, errs) httpInfo) = request \<or>
   (Cur request = [] \<and>
    fst (collectOne bidder json bidAdjustment conversions (request, seatBid, errs) httpInfo) =
      request\<lparr>Cur := [''USD'']\<rparr>)"
proof -
  let ?traced = "if Test request = 1
                 then (case makeExt httpInfo of
                         Panic \<Rightarrow> Panic
                       | Returned call \<Rightarrow> Returned (seatBid\<lparr>httpCalls := httpCalls seatBid @ [call]\<rparr>))
                 else Returned seatBid"
  show ?thesis
  proof (cases ?traced)
    case Panic
    then show ?thesis by (simp add: collectOne_def)
  next
    case (Returned seatBid1)
    show ?thesis
    proof (cases "hc_err httpInfo")
      case (Some e)
      with Returned show ?thesis by (simp add: collectOne_def)
    next
      case None
      obtain bidResponse moreErrs where mb:
        "MakeBids (Bidder bidder) request (hc_request httpInfo) (hc_response httpInfo) =
           (bidResponse, moreErrs)"
        by (cases "MakeBids (Bidder bidder) request (hc_request httpInfo) (hc_response httpInfo)")
      show ?thesis
      proof (cases bidResponse)
        case None
        with \<open>hc_err httpInfo = None\<close> Returned mb show ?thesis by (simp add: collectOne_def)
      next
        case (Some r)
        with \<open>hc_err httpInfo = None\<close> Returned mb
        have "collectOne bidder json bidAdjustment conversions (request, seatBid, errs) httpInfo =
                processBidResponse json bidAdjustment conversions request seatBid1 (errs @ moreErrs) r"
          by (simp add: collectOne_def)
        then show ?thesis by (simp add: processBidResponse_request)
      qed
    qed
  qed
qed

lemma collectLoop_request:
  assumes "r = request \<or> (Cur request = [] \<and> r = request\<lparr>Cur := [''USD'']\<rparr>)"
  shows "fst (collectLoop bidder json bidAdjustment conversions infos (r, seatBid, errs)) = request \<or>
         (Cur request = [] \<and>
          fst (collectLoop bidder json bidAdjustment conversions infos (r, seatBid, errs)) =
            request\<lparr>Cur := [''USD'']\<rparr>)"
  using assms
proof (induction infos arbitrary: r seatBid errs)
  case Nil
  then show ?case by simp
next
  case (Cons httpInfo rest)
  obtain r1 out where step:
    "collectOne bidder json bidAdjustment conversions (r, seatBid, errs) httpInfo = (r1, out)"
    by (cases "collectOne bidder json bidAdjustment conversions (r, seatBid, errs) httpInfo")
  from collectOne_request[of bidder json bidAdjustment conversions r seatBid errs httpInfo] step
  have "r1 = r \<or> (Cur r = [] \<and> r1 = r\<lparr>Cur := [''USD'']\<rparr>)" by simp
  with Cons.prems have inv: "r1 = request \<or> (Cur request = [] \<and> r1 = request\<lparr>Cur := [''USD'']\<rparr>)"
    by auto
  show ?case
  proof (cases out)
    case Panic
    with step inv show ?thesis by simp
  next
    case (Returned p)
    obtain sb1 es1 where p: "p = (sb1, es1)" by (cases p)
    from Cons.IH[OF inv, of sb1 es1] step Returned p show ?thesis by simp
  qed
qed

text \<open>
  Claim C8. Processing a bid response sets \<open>request.Cur\<close> to \<open>[''USD'']\<close> when it is
  empty and changes nothing else; and whatever \<open>requestBid\<close> does (also when it
  panics), the request it leaves behind is the request it was given, or, when \<open>Cur\<close>
  was empty, that request with \<open>Cur\<close> set to \<open>[''USD'']\<close>.
\<close>

theorem requestBid_request_frame:
  "fst (processBidResponse json bidAdjustment conversions request seatBid errs bidResponse) =
     (if Cur request = [] then request\<lparr>Cur := [''USD'']\<rparr> else request) \<and>
   (fst (requestBid bidder json schedule request name bidAdjustment conversions reqInfo) = request \<or>
    (Cur request = [] \<and>
     fst (requestBid bidder json schedule request name bidAdjustment conversions reqInfo) =
       request\<lparr>Cur := [''USD'']\<rparr>))"
proof -
  obtain reqData es where mk: "MakeRequests (Bidder bidder) request reqInfo = (reqData, es)"
    by (cases "MakeRequests (Bidder bidder) request reqInfo")
  have "fst (requestBid bidder json schedule request name bidAdjustment conversions reqInfo) = request \<or>
    (Cur request = [] \<and>
     fst (requestBid bidder json schedule request name bidAdjustment conversions reqInfo) =
       request\<lparr>Cur := [''USD'']\<rparr>)"
  proof (cases "reqData = []")
    case True
    with mk show ?thesis by (simp add: requestBid_def)
  next
    case False
    let ?loop = "collectLoop bidder json bidAdjustment conversions
                   (deliver schedule (map (\<lambda>data. fst (doRequest bidder data)) reqData))
                   (request, \<lparr>bids = [], currency = defaultCurrency, httpCalls = [], ext = []\<rparr>, es)"
    have "fst (requestBid bidder json schedule request name bidAdjustment conversions reqInfo) = fst ?loop"
      using mk False by (simp add: requestBid_def split: prod.splits outcome.splits)
    moreover have "fst ?loop = request \<or> (Cur request = [] \<and> fst ?loop = request\<lparr>Cur := [''USD'']\<rparr>)"
      by (rule collectLoop_request) simp
    ultimately show ?thesis by simp
  qed
  then show ?thesis by (simp add: processBidResponse_request)
qed


subsection \<open>Evaluation of the concrete inputs\<close>

lemmas ex_defs = exAdapter_def exBidder_def exClient_def exReq_def exRequest_def exMakeBids_def
  exConversions_def exJson_def exBid_def exNotify_def exInfo_def

lemmas run_defs = requestBid_def collectOne_def doRequest_def makeExt_def processBidResponse_def
  badStatusMessage_def formatInt_def showNat.simps digit_def defaultCurrency_def
  doTimeoutNotification_def adjustPrice_def Let_def

subsection \<open>The debug traces\<close>

lemma collectOne_unfold:
  "collectOne bidder json bidAdjustment conversions (request, seatBid, errs) httpInfo =
     (case (if Test request = 1
            then (case makeExt httpInfo of
                    Panic \<Rightarrow> Panic
                  | Returned call \<Rightarrow> Returned (seatBid\<lparr>httpCalls := httpCalls seatBid @ [call]\<rparr>))
            else Returned seatBid) of
        Panic \<Rightarrow> (request, Panic)
      | Returned seatBid1 \<Rightarrow>
          (case hc_err httpInfo of
             Some e \<Rightarrow> (request, Returned (seatBid1, errs @ [e]))
           | None \<Rightarrow>
               (case MakeBids (Bidder bidder) request (hc_request httpInfo) (hc_response httpInfo) of
                  (bidResponse, moreErrs) \<Rightarrow>
                    (case bidResponse of
                       None \<Rightarrow> (request, Returned (seatBid1, errs @ moreErrs))
                     | Some r \<Rightarrow>
                         processBidResponse json bidAdjustment conversions request seatBid1
                           (errs @ moreErrs) r))))"
  unfolding collectOne_def prod.case by (rule refl)

lemma processBidResponse_httpCalls:
  assumes "processBidResponse json bidAdjustment conversions request seatBid errs bidResponse =
             (request1, Returned (seatBid1, errs1))"
  shows "httpCalls seatBid1 = httpCalls seatBid \<and> Test request1 = Test request"
proof -
  define r1 where
    "r1 = (if length (Cur request) = 0 then request\<lparr>Cur := [defaultCurrency]\<rparr> else request)"
  obtain rate e cur where g:
    "getRateLoop conversions
       (if Currency bidResponse = [] then defaultCurrency else Currency bidResponse)
       (Cur r1) (0, None, currency seatBid) = (rate, e, cur)"
    by (metis prod_cases3)
  have t: "Test r1 = Test request" by (simp add: r1_def)
  from assms show ?thesis
    unfolding processBidResponse_unfold[OF r1_def g]
    using t by (auto split: outcome.splits option.splits prod.splits)
qed

lemma collectOne_httpCalls:
  assumes "collectOne bidder json bidAdjustment conversions (request, seatBid, errs) httpInfo =
             (request1, Returned (seatBid1, errs1))"
  shows "Test request1 = Test request \<and>
         length (httpCalls seatBid1) = length (httpCalls seatBid) + (if Test request = 1 then 1 else 0)"
proof -
  let ?traced = "if Test request = 1
                 then (case makeExt httpInfo of
                         Panic \<Rightarrow> Panic
                       | Returned call \<Rightarrow> Returned (seatBid\<lparr>httpCalls := httpCalls seatBid @ [call]\<rparr>))
                 else Returned seatBid"
  show ?thesis
  proof (cases ?traced)
    case Panic
    with assms show ?thesis unfolding collectOne_unfold by simp
  next
    case (Returned sb)
    then have len: "length (httpCalls sb) = length (httpCalls seatBid) + (if Test request = 1 then 1 else 0)"
      by (auto split: if_splits outcome.splits)
    show ?thesis
    proof (cases "hc_err httpInfo")
      case (Some e)
      with assms Returned len show ?thesis unfolding collectOne_unfold by auto
    next
      case None
      obtain bidResponse moreErrs where mb:
        "MakeBids (Bidder bidder) request (hc_request httpInfo) (hc_response httpInfo) =
           (bidResponse, moreErrs)"
        by (cases "MakeBids (Bidder bidder) request (hc_request httpInfo) (hc_response httpInfo)")
      show ?thesis
      proof (cases bidResponse)
        case None
        with assms \<open>hc_err httpInfo = None\<close> Returned mb len show ?thesis
          unfolding collectOne_unfold by auto
      next
        case (Some r)
        with assms \<open>hc_err httpInfo = None\<close> Returned mb
        have "processBidResponse json bidAdjustment conversions request sb (errs @ moreErrs) r =
                (request1, Returned (seatBid1, errs1))"
          unfolding collectOne_unfold by simp
        from processBidResponse_httpCalls[OF this] len show ?thesis by simp
      qed
    qed
  qed
qed

lemma collectLoop_httpCalls:
  assumes "collectLoop bidder json bidAdjustment conversions infos (request, seatBid, errs) =
             (request1, Returned (seatBid1, errs1))"
  shows "length (httpCalls seatBid1) =
           length (httpCalls seatBid) + (if Test request = 1 then length infos else 0)"
  using assms
proof (induction infos arbitrary: request seatBid errs)
  case Nil
  then show ?case by simp
next
  case (Cons httpInfo rest)
  obtain r out where step:
    "collectOne bidder json bidAdjustment conversions (request, seatBid, errs) httpInfo = (r, out)"
    by (cases "collectOne bidder json bidAdjustment conversions (request, seatBid, errs) httpInfo")
  show ?case
  proof (cases out)
    case Panic
    with step Cons.prems show ?thesis by simp
  next
    case (Returned p)
    obtain sb es where p: "p = (sb, es)" by (cases p)
    from step Returned p have one:
      "collectOne bidder json bidAdjustment conversions (request, seatBid, errs) httpInfo =
         (r, Returned (sb, es))" by simp
    from Cons.prems one have
      "collectLoop bidder json bidAdjustment conversions rest (r, sb, es) =
         (request1, Returned (seatBid1, errs1))" by simp
    from Cons.IH[OF this] collectOne_httpCalls[OF one] show ?thesis by simp
  qed
qed

text \<open>
  Claim C4. In the seat-bid that \<open>requestBid\<close> returns, \<open>httpCalls\<close> holds one trace
  per outbound request when \<open>request.Test\<close> is 1 and none otherwise; a seat-bid is
  returned only after at least one call result, so \<open>httpCalls\<close> is non-empty exactly
  when \<open>request.Test\<close> is 1.
\<close>

theorem requestBid_httpCalls:
  assumes "requestBid bidder json schedule request name bidAdjustment conversions reqInfo =
             (request1, Returned (Some seatBid, errs))"
  shows "length (httpCalls seatBid) =
           (if Test request = 1 then length (fst (MakeRequests (Bidder bidder) request reqInfo)) else 0) \<and>
         (httpCalls seatBid \<noteq> [] \<longleftrightarrow> Test request = 1)"
proof -
  obtain reqData es where mk: "MakeRequests (Bidder bidder) request reqInfo = (reqData, es)"
    by (cases "MakeRequests (Bidder bidder) request reqInfo")
  have ne: "reqData \<noteq> []"
    using assms mk by (auto simp: requestBid_def)
  let ?infos = "deliver schedule (map (\<lambda>data. fst (doRequest bidder data)) reqData)"
  let ?sb0 = "\<lparr>bids = [], currency = defaultCurrency, httpCalls = [], ext = []\<rparr> :: 'a pbsOrtbSeatBid"
  from assms mk ne have
    "collectLoop bidder json bidAdjustment conversions ?infos (request, ?sb0, es) =
       (request1, Returned (seatBid, errs))"
    by (auto simp: requestBid_def split: prod.splits outcome.splits)
  from collectLoop_httpCalls[OF this]
  have "length (httpCalls seatBid) = (if Test request = 1 then length reqData else 0)"
    by (simp add: length_deliver)
  with mk ne show ?thesis by auto
qed

theorem requestBid_httpCalls_witness:
  "requestBid (exAdapter [''http://down'', ''http://slow'']) exJson [] ((exRequest [])\<lparr>Test := 1\<rparr>)
       ''bidder'' 1 exConversions exInfo =
     ((exRequest [])\<lparr>Test := 1\<rparr>,
      Returned (Some \<lparr>bids = [], currency = ''USD'',
          httpCalls =
            [\<lparr>call_Uri = ''http://down'', call_RequestBody = ''{}'',
               call_ResponseBody = [], call_Status = 0\<rparr>,
             \<lparr>call_Uri = ''http://slow'', call_RequestBody = ''{}'',
               call_ResponseBody = [], call_Status = 0\<rparr>],
          ext = []\<rparr>,
        [BadServerResponse
           ''Server responded with failure status: 503. Set request.test = 1 for debugging info.'',
         Timeout ''context deadline exceeded''])) \<and>
   length (fst (MakeRequests (Bidder (exAdapter [''http://down'', ''http://slow'']))
                  ((exRequest [])\<lparr>Test := 1\<rparr>) exInfo)) = 2"
proof -
  have run: "requestBid (exAdapter [''http://down'', ''http://slow'']) exJson [] ((exRequest [])\<lparr>Test := 1\<rparr>)
       ''bidder'' 1 exConversions exInfo =
     ((exRequest [])\<lparr>Test := 1\<rparr>,
      Returned (Some \<lparr>bids = [], currency = ''USD'',
          httpCalls =
            [\<lparr>call_Uri = ''http://down'', call_RequestBody = ''{}'',
               call_ResponseBody = [], call_Status = 0\<rparr>,
             \<lparr>call_Uri = ''http://slow'', call_RequestBody = ''{}'',
               call_ResponseBody = [], call_Status = 0\<rparr>],
          ext = []\<rparr>,
        [BadServerResponse
           ''Server responded with failure status: 503. Set request.test = 1 for debugging info.'',
         Timeout ''context deadline exceeded'']))"
    by (simp add: ex_defs run_defs)
  from requestBid_httpCalls[OF run] run show ?thesis by (simp add: exRequest_def)
qed

text \<open>
  For a request that is not a mobile app request, \<open>requestBid\<close> returns: the results
  of \<open>doRequest\<close> carry what \<open>makeExt\<close> reads, and no markup is touched.
\<close>

lemma makeExt_doRequest: "\<exists>call. makeExt (fst (doRequest bidder req)) = Returned call"
  by (simp add: doRequest_def makeExt_def split: sum.split doResult.split)

lemma processBidResponse_returns:
  assumes "Request_App request = None"
  shows "\<exists>r sb es. processBidResponse json bidAdjustment conversions request seatBid errs bidResponse =
           (r, Returned (sb, es)) \<and> Request_App r = None"
proof -
  define r1 where
    "r1 = (if length (Cur request) = 0 then request\<lparr>Cur := [defaultCurrency]\<rparr> else request)"
  obtain rate e cur where g:
    "getRateLoop conversions
       (if Currency bidResponse = [] then defaultCurrency else Currency bidResponse)
       (Cur r1) (0, None, currency seatBid) = (rate, e, cur)"
    by (metis prod_cases3)
  have app: "Request_App r1 = None" using assms by (simp add: r1_def)
  show ?thesis
    unfolding processBidResponse_unfold[OF r1_def g]
    using app by (cases e) simp_all
qed

lemma collectOne_returns:
  assumes "Request_App request = None" and "makeExt httpInfo \<noteq> Panic"
  shows "\<exists>r sb es. collectOne bidder json bidAdjustment conversions (request, seatBid, errs) httpInfo =
           (r, Returned (sb, es)) \<and> Request_App r = None"
proof -
  from assms(2) obtain call where call: "makeExt httpInfo = Returned call"
    by (cases "makeExt httpInfo") auto
  obtain bidResponse moreErrs where mb:
    "MakeBids (Bidder bidder) request (hc_request httpInfo) (hc_response httpInfo) =
       (bidResponse, moreErrs)"
    by (cases "MakeBids (Bidder bidder) request (hc_request httpInfo) (hc_response httpInfo)")
  show ?thesis
  proof (cases "hc_err httpInfo")
    case (Some e)
    with assms(1) call show ?thesis unfolding collectOne_unfold by simp
  next
    case None
    show ?thesis
    proof (cases bidResponse)
      case None
      with \<open>hc_err httpInfo = None\<close> assms(1) call mb show ?thesis
        unfolding collectOne_unfold by simp
    next
      case (Some r)
      let ?sb1 = "if Test request = 1 then seatBid\<lparr>httpCalls := httpCalls seatBid @ [call]\<rparr> else seatBid"
      from processBidResponse_returns[OF assms(1), of json bidAdjustment conversions ?sb1 "errs @ moreErrs" r]
      obtain r1 sb es where
        "processBidResponse json bidAdjustment conversions request ?sb1 (errs @ moreErrs) r =
           (r1, Returned (sb, es))" and "Request_App r1 = None"
        by blast
      with Some \<open>hc_err httpInfo = None\<close> call mb
      show ?thesis unfolding collectOne_unfold by (simp split: if_splits)
    qed
  qed
qed

lemma collectLoop_returns:
  assumes "Request_App request = None" and "\<forall>i \<in> set infos. makeExt i \<noteq> Panic"
  shows "\<exists>r sb es. collectLoop bidder json bidAdjustment conversions infos (request, seatBid, errs) =
           (r, Returned (sb, es))"
  using assms
proof (induction infos arbitrary: request seatBid errs)
  case Nil
  then show ?case by simp
next
  case (Cons httpInfo rest)
  from Cons.prems have "makeExt httpInfo \<noteq> Panic" by simp
  from collectOne_returns[OF Cons.prems(1) this]
  obtain r sb es where one:
    "collectOne bidder json bidAdjustment conversions (request, seatBid, errs) httpInfo =
       (r, Returned (sb, es))" and app: "Request_App r = None"
    by blast
  from Cons.prems have "\<forall>i \<in> set rest. makeExt i \<noteq> Panic" by simp
  from Cons.IH[OF app this, of sb es] one show ?case by simp
qed

lemma requestBid_returns:
  assumes "Request_App request = None"
  shows "\<exists>r sb es. requestBid bidder json schedule request name bidAdjustment conversions reqInfo =
           (r, Returned (sb, es))"
proof -
  obtain reqData es where mk: "MakeRequests (Bidder bidder) request reqInfo = (reqData, es)"
    by (cases "MakeRequests (Bidder bidder) request reqInfo")
  show ?thesis
  proof (cases "reqData = []")
    case True
    with mk show ?thesis by (simp add: requestBid_def)
  next
    case False
    let ?infos = "deliver schedule (map (\<lambda>data. fst (doRequest bidder data)) reqData)"
    have "makeExt (fst (doRequest bidder d)) \<noteq> Panic" for d
      using makeExt_doRequest[of bidder d] by auto
    then have "\<forall>i \<in> set ?infos. makeExt i \<noteq> Panic"
      by (auto simp: set_deliver)
    from collectLoop_returns[OF assms this]
    obtain r sb es1 where
      "collectLoop bidder json bidAdjustment conversions ?infos
         (request, \<lparr>bids = [], currency = defaultCurrency, httpCalls = [], ext = []\<rparr>, es) =
       (r, Returned (sb, es1))"
      by blast
    with mk False show ?thesis by (simp add: requestBid_def)
  qed
qed

subsection \<open>Currency resolution\<close>

lemma getRateLoop_find:
  "getRateLoop conv from curs (r0, e0, cur0) =
     (case find (\<lambda>c. snd (conv from c) = None) curs of
        Some c \<Rightarrow> (fst (conv from c), None, c)
      | None \<Rightarrow> (if curs = [] then (r0, e0, cur0)
                 else (fst (conv from (last curs)), snd (conv from (last curs)), cur0)))"
proof (induction curs arbitrary: r0 e0)
  case Nil
  then show ?case by simp
next
  case (Cons c cs)
  show ?case
  proof (cases "conv from c")
    case (Pair r e)
    show ?thesis
    proof (cases e)
      case None
      with Pair show ?thesis by simp
    next
      case (Some e1)
      with Pair Cons.IH[of r "Some e1"] show ?thesis by (cases cs) (auto split: option.splits)
    qed
  qed
qed

lemma enrichBid_errs:
  assumes "enrichBid json request tb errs = Returned (tb1, errs1)"
  shows "\<exists>more. errs1 = errs @ more"
  using assms
  by (auto simp: enrichBid_def split: if_splits outcome.splits option.splits sum.splits prod.splits)

lemma enrichBids_errs:
  assumes "enrichBids json request tbs errs = Returned (tbs1, errs1)"
  shows "(\<exists>more. errs1 = errs @ more) \<and> length tbs1 = length tbs"
  using assms
proof (induction tbs arbitrary: errs tbs1 errs1)
  case Nil
  then show ?case by simp
next
  case (Cons tb tbs)
  from Cons.prems obtain tb1 es1 where one: "enrichBid json request tb errs = Returned (tb1, es1)"
    by (cases "enrichBid json request tb errs") auto
  with Cons.prems obtain rest es2 where more:
    "enrichBids json request tbs es1 = Returned (rest, es2)" and res: "tbs1 = tb1 # rest" "errs1 = es2"
    by (cases "enrichBids json request tbs es1") auto
  from enrichBid_errs[OF one] Cons.IH[OF more] res show ?case by auto
qed

text \<open>
  Claim C3. For a call result without error whose bid response is not nil, with the
  response currency and \<open>request.Cur\<close> after their defaults: \<open>seatBid.currency\<close>
  becomes the first code of \<open>request.Cur\<close> for which \<open>GetRate\<close> succeeds, and the
  bids are appended at that rate; when \<open>GetRate\<close> fails for every code, the currency and
  the bids of the seat-bid stay as they were and, of the \<open>GetRate\<close> errors, only the
  last one is appended to the errors (after the errors of \<open>MakeBids\<close> and of the native
  enrichment).
\<close>

theorem collectOne_currency:
  assumes noErr: "hc_err httpInfo = None"
    and mb: "MakeBids (Bidder bidder) request (hc_request httpInfo) (hc_response httpInfo) =
               (Some bidResponse, moreErrs)"
    and run: "collectOne bidder json bidAdjustment conversions (request, seatBid, errs) httpInfo =
                (request1, Returned (seatBid1, errs1))"
    and rc: "responseCurrency = (if Currency bidResponse = [] then ''USD'' else Currency bidResponse)"
    and curs: "curs = (if Cur request = [] then [''USD''] else Cur request)"
  shows "\<exists>tbs nativeErrs.
           (if Request_App request \<noteq> None
            then enrichBids json request1 (Bids bidResponse) (errs @ moreErrs)
            else Returned (Bids bidResponse, errs @ moreErrs)) =
             Returned (tbs, errs @ moreErrs @ nativeErrs) \<and>
           (case find (\<lambda>c. snd (conversions responseCurrency c) = None) curs of
              Some c \<Rightarrow>
                currency seatBid1 = c \<and>
                bids seatBid1 = appendBids bidAdjustment (fst (conversions responseCurrency c)) tbs (bids seatBid) \<and>
                errs1 = errs @ moreErrs @ nativeErrs
            | None \<Rightarrow>
                currency seatBid1 = currency seatBid \<and>
                bids seatBid1 = bids seatBid \<and>
                errs1 = errs @ moreErrs @ nativeErrs @ [the (snd (conversions responseCurrency (last curs)))])"
proof -
  let ?traced = "if Test request = 1
                 then (case makeExt httpInfo of
                         Panic \<Rightarrow> Panic
                       | Returned call \<Rightarrow> Returned (seatBid\<lparr>httpCalls := httpCalls seatBid @ [call]\<rparr>))
                 else Returned seatBid"
  from run obtain sb where traced: "?traced = Returned sb"
    unfolding collectOne_unfold by (cases ?traced) auto
  then have sb: "currency sb = currency seatBid" "bids sb = bids seatBid"
    by (auto split: if_splits outcome.splits)
  from run traced noErr mb have pr:
    "processBidResponse json bidAdjustment conversions request sb (errs @ moreErrs) bidResponse =
       (request1, Returned (seatBid1, errs1))"
    unfolding collectOne_unfold by simp
  define r1 where
    "r1 = (if length (Cur request) = 0 then request\<lparr>Cur := [defaultCurrency]\<rparr> else request)"
  have r1: "request1 = r1"
    using processBidResponse_request[of json bidAdjustment conversions request sb "errs @ moreErrs" bidResponse]
      pr by (simp add: r1_def defaultCurrency_def)
  have cur_r1: "Cur r1 = curs" and app_r1: "Request_App r1 = Request_App request"
    by (simp_all add: r1_def curs defaultCurrency_def)
  have ne: "curs \<noteq> []" by (simp add: curs)
  let ?found = "find (\<lambda>c. snd (conversions responseCurrency c) = None) curs"
  define st where "st = (case ?found of
        Some c \<Rightarrow> (fst (conversions responseCurrency c), None, c)
      | None \<Rightarrow> (fst (conversions responseCurrency (last curs)), snd (conversions responseCurrency (last curs)), currency sb))"
  have g: "getRateLoop conversions
             (if Currency bidResponse = [] then defaultCurrency else Currency bidResponse)
             (Cur r1) (0, None, currency sb) = (fst st, fst (snd st), snd (snd st))"
    using ne by (simp add: getRateLoop_find cur_r1 rc defaultCurrency_def st_def split: option.splits)
  let ?enr = "if Request_App r1 \<noteq> None
              then enrichBids json r1 (Bids bidResponse) (errs @ moreErrs)
              else Returned (Bids bidResponse, errs @ moreErrs)"
  from pr obtain tbs errsN where enr: "?enr = Returned (tbs, errsN)"
    unfolding processBidResponse_unfold[OF r1_def g] by (cases ?enr) auto
  have "\<exists>more. errsN = (errs @ moreErrs) @ more"
  proof (cases "Request_App r1 \<noteq> None")
    case True
    with enr have "enrichBids json r1 (Bids bidResponse) (errs @ moreErrs) = Returned (tbs, errsN)"
      by simp
    from enrichBids_errs[OF this] show ?thesis by blast
  next
    case False
    with enr show ?thesis by simp
  qed
  then obtain nativeErrs where nat: "errsN = errs @ moreErrs @ nativeErrs" by auto
  have enr': "(if Request_App request \<noteq> None
            then enrichBids json request1 (Bids bidResponse) (errs @ moreErrs)
            else Returned (Bids bidResponse, errs @ moreErrs)) =
             Returned (tbs, errs @ moreErrs @ nativeErrs)"
    using enr nat r1 app_r1 by (simp split: if_splits)
  have res: "(case ?found of
              Some c \<Rightarrow>
                currency seatBid1 = c \<and>
                bids seatBid1 = appendBids bidAdjustment (fst (conversions responseCurrency c)) tbs (bids seatBid) \<and>
                errs1 = errs @ moreErrs @ nativeErrs
            | None \<Rightarrow>
                currency seatBid1 = currency seatBid \<and>
                bids seatBid1 = bids seatBid \<and>
                errs1 = errs @ moreErrs @ nativeErrs @ [the (snd (conversions responseCurrency (last curs)))])"
  proof (cases ?found)
    case None
    then have "\<not> snd (conversions responseCurrency (last curs)) = None"
      using ne by (auto simp: find_None_iff)
    then obtain e1 where e1: "snd (conversions responseCurrency (last curs)) = Some e1" by auto
    with None have "fst (snd st) = Some e1" "snd (snd st) = currency sb" by (simp_all add: st_def)
    with pr enr nat sb e1 None show ?thesis
      unfolding processBidResponse_unfold[OF r1_def g] by auto
  next
    case (Some c)
    then have "fst st = fst (conversions responseCurrency c)" "fst (snd st) = None" "snd (snd st) = c"
      by (simp_all add: st_def)
    with pr enr nat sb Some show ?thesis
      unfolding processBidResponse_unfold[OF r1_def g] by auto
  qed
  from enr' res show ?thesis by blast
qed

theorem collectOne_currency_witness:
  "hc_err (fst (doRequest (exAdapter [''http://jpy'']) (exReq ''http://jpy''))) = None \<and>
   find (\<lambda>c. snd (exConversions ''JPY'' c) = None) [''GBP'', ''USD''] = Some ''USD'' \<and>
   collectOne (exAdapter [''http://jpy'']) exJson 1 exConversions
       (exRequest [''GBP'', ''USD''],
        \<lparr>bids = [], currency = ''USD'', httpCalls = [], ext = []\<rparr>, [])
       (fst (doRequest (exAdapter [''http://jpy'']) (exReq ''http://jpy''))) =
     (exRequest [''GBP'', ''USD''],
      Returned (\<lparr>bids = [\<lparr>bid = Some ((exBid ''b2'' ''<div/>'')\<lparr>Price := 4\<rparr>),
                          bidType = BidTypeBanner, bidTargets = [], bidVideo = None,
                          dealPriority = 0\<rparr>],
                 currency = ''USD'', httpCalls = [], ext = []\<rparr>, [])) \<and>
   find (\<lambda>c. snd (exConversions ''JPY'' c) = None) [''GBP'', ''CHF''] = None \<and>
   collectOne (exAdapter [''http://jpy'']) exJson 1 exConversions
       (exRequest [''GBP'', ''CHF''],
        \<lparr>bids = [], currency = ''USD'', httpCalls = [], ext = []\<rparr>, [])
       (fst (doRequest (exAdapter [''http://jpy'']) (exReq ''http://jpy''))) =
     (exRequest [''GBP'', ''CHF''],
      Returned (\<lparr>bids = [], currency = ''USD'', httpCalls = [], ext = []\<rparr>,
                [GoError ''no conversion rate from JPY to CHF'']))"
proof -
  let ?info = "fst (doRequest (exAdapter [''http://jpy'']) (exReq ''http://jpy''))"
  let ?resp = "\<lparr>Currency = ''JPY'',
                Bids = [\<lparr>Bid = Some (exBid ''b2'' ''<div/>''), BidType = BidTypeBanner,
                         BidVideo = None, DealPriority = 0\<rparr>]\<rparr>"
  let ?sb0 = "\<lparr>bids = [], currency = ''USD'', httpCalls = [], ext = []\<rparr> :: real pbsOrtbSeatBid"
  have info: "?info = \<lparr>hc_request = Some (exReq ''http://jpy''),
      hc_response = Some \<lparr>StatusCode = 200, RespBody = ''http://jpy'', RespHeaders = []\<rparr>,
      hc_err = None\<rparr>"
    by (simp add: doRequest_def exAdapter_def exClient_def exReq_def)
  have noErr: "hc_err ?info = None" by (simp add: info)
  have mb: "MakeBids (Bidder (exAdapter [''http://jpy''])) (exRequest curs) (hc_request ?info)
              (hc_response ?info) = (Some ?resp, [])" for curs
    unfolding info by (simp add: exAdapter_def exBidder_def exMakeBids_def)
  have run1: "collectOne (exAdapter [''http://jpy'']) exJson 1 exConversions
       (exRequest [''GBP'', ''USD''], ?sb0, []) ?info =
     (exRequest [''GBP'', ''USD''],
      Returned (\<lparr>bids = [\<lparr>bid = Some ((exBid ''b2'' ''<div/>'')\<lparr>Price := 4\<rparr>),
                          bidType = BidTypeBanner, bidTargets = [], bidVideo = None,
                          dealPriority = 0\<rparr>],
                 currency = ''USD'', httpCalls = [], ext = []\<rparr>, []))"
    unfolding info
    by (simp add: ex_defs collectOne_def processBidResponse_def defaultCurrency_def adjustPrice_def Let_def)
  have run2: "collectOne (exAdapter [''http://jpy'']) exJson 1 exConversions
       (exRequest [''GBP'', ''CHF''], ?sb0, []) ?info =
     (exRequest [''GBP'', ''CHF''],
      Returned (?sb0, [GoError ''no conversion rate from JPY to CHF'']))"
    unfolding info
    by (simp add: ex_defs collectOne_def processBidResponse_def defaultCurrency_def adjustPrice_def Let_def)
  have rc: "''JPY'' = (if Currency ?resp = [] then ''USD'' else Currency ?resp)" by simp
  have c1: "[''GBP'', ''USD''] = (if Cur (exRequest [''GBP'', ''USD'']) = [] then [''USD'']
              else Cur (exRequest [''GBP'', ''USD'']))"
    by (simp add: exRequest_def)
  have c2: "[''GBP'', ''CHF''] = (if Cur (exRequest [''GBP'', ''CHF'']) = [] then [''USD'']
              else Cur (exRequest [''GBP'', ''CHF'']))"
    by (simp add: exRequest_def)
  have f1: "find (\<lambda>c. snd (exConversions ''JPY'' c) = None) [''GBP'', ''USD''] = Some ''USD''"
    by (simp add: exConversions_def)
  have f2: "find (\<lambda>c. snd (exConversions ''JPY'' c) = None) [''GBP'', ''CHF''] = None"
    by (simp add: exConversions_def)
  from collectOne_currency[OF noErr mb run1 rc c1] f1
  have "currency \<lparr>bids = [\<lparr>bid = Some ((exBid ''b2'' ''<div/>'')\<lparr>Price := 4\<rparr>),
                          bidType = BidTypeBanner, bidTargets = [], bidVideo = None,
                          dealPriority = 0\<rparr>],
                 currency = ''USD'', httpCalls = [], ext = []\<rparr> = ''USD''"
    by simp
  moreover from collectOne_currency[OF noErr mb run2 rc c2] f2
  have "bids ?sb0 = []" by simp
  ultimately show ?thesis using noErr f1 f2 run1 run2 by simp
qed

subsection \<open>Prices\<close>

text \<open>
  The bids appended for one bid response: each entry of the response gives one bid, with
  the price multiplied by the adjustment and then by the rate when the entry has a bid.
\<close>

lemma appendBids_map:
  "appendBids bidAdjustment conversionRate tbs acc =
     acc @ map (\<lambda>tb. \<lparr>bid = adjustPrice bidAdjustment conversionRate (Bid tb),
                        bidType = BidType tb, bidTargets = [],
                        bidVideo = BidVideo tb, dealPriority = DealPriority tb\<rparr>) tbs"
  by (induction tbs arbitrary: acc) simp_all

lemma appendBids_nil_bid:
  assumes "tb \<in> set tbs" and "Bid tb = None"
  shows "\<lparr>bid = None, bidType = BidType tb, bidTargets = [],
          bidVideo = BidVideo tb, dealPriority = DealPriority tb\<rparr>
           \<in> set (appendBids bidAdjustment conversionRate tbs acc)"
  using assms by (force simp: appendBids_map adjustPrice_def)

text \<open>
  Claim C2 does not hold of the code. \<open>seatBid.currency\<close> is one field, written each
  time a response finds a rate, while the bids of earlier responses keep the prices they
  got at their own rate. Here the plugin makes two requests; the first response is in EUR
  and converts to GBP at 2, the second is in JPY, for which only USD has a rate (4). The
  seat-bid comes back in USD with the first bid at 2, its price in GBP, where the rate
  from EUR to USD would give 8.
\<close>

theorem requestBid_mixed_currencies:
  "requestBid (exAdapter [''http://eur'', ''http://jpy'']) exJson [] (exRequest [''GBP'', ''USD''])
       ''bidder'' 1 exConversions exInfo =
     (exRequest [''GBP'', ''USD''],
      Returned (Some \<lparr>bids =
          [\<lparr>bid = Some \<lparr>Bid_ID = ''b1'', ImpID = ''imp1'', Price = 2, AdM = ''<div/>'', Bid_Ext = []\<rparr>,
             bidType = BidTypeBanner, bidTargets = [], bidVideo = None, dealPriority = 0\<rparr>,
           \<lparr>bid = Some \<lparr>Bid_ID = ''b2'', ImpID = ''imp1'', Price = 4, AdM = ''<div/>'', Bid_Ext = []\<rparr>,
             bidType = BidTypeBanner, bidTargets = [], bidVideo = None, dealPriority = 0\<rparr>],
          currency = ''USD'', httpCalls = [], ext = []\<rparr>, [])) \<and>
   Price (exBid ''b1'' ''<div/>'') * 1 * fst (exConversions ''EUR'' ''USD'') = 8 \<and>
   Price (exBid ''b1'' ''<div/>'') * 1 * fst (exConversions ''EUR'' ''GBP'') = 2"
  by (simp add: ex_defs run_defs)

subsection \<open>Entries without a bid\<close>

text \<open>
  Claim C9 does not hold of the code for a mobile app request. The loop that appends the
  bids skips the price of an entry whose \<open>Bid\<close> is nil and still appends it (see
  \<open>appendBids_nil_bid\<close>), but for a request with \<open>App\<close> the enrichment loop runs
  first and hands the nil \<open>Bid\<close> of a native entry to \<open>addNativeTypes\<close>, which reads
  \<open>bid.AdM\<close>: \<open>requestBid\<close> panics and appends nothing. Without \<open>App\<close> the same
  response gives the bid the claim describes.
\<close>

theorem requestBid_nil_native_bid_panics:
  "requestBid (exAdapter [''http://nil'']) exJson []
       ((exRequest [''USD''])\<lparr>Request_App := Some \<lparr>App_ID = ''app''\<rparr>\<rparr>)
       ''bidder'' 1 exConversions exInfo =
     ((exRequest [''USD''])\<lparr>Request_App := Some \<lparr>App_ID = ''app''\<rparr>\<rparr>, Panic) \<and>
   requestBid (exAdapter [''http://nil'']) exJson [] (exRequest [''USD''])
       ''bidder'' 1 exConversions exInfo =
     (exRequest [''USD''],
      Returned (Some \<lparr>bids =
          [\<lparr>bid = None, bidType = BidTypeNative, bidTargets = [], bidVideo = None,
             dealPriority = 5\<rparr>],
          currency = ''USD'', httpCalls = [], ext = []\<rparr>, []))"
  by (simp add: ex_defs run_defs enrichBid_def addNativeTypes_def)

subsection \<open>Markup that is not a native response\<close>

text \<open>
  When the markup fails to parse, or parses to a payload without assets,
  \<open>addNativeTypes\<close> returns no markup and no error.
\<close>

lemma addNativeTypes_skips:
  assumes "(\<exists>e. UnmarshalResponse json (AdM b) = Inl e) \<or>
           (\<exists>m. UnmarshalResponse json (AdM b) = Inr (Some m) \<and> Assets m = [])"
  shows "addNativeTypes json (Some b) request = Returned (None, [])"
  using assms by (auto simp: addNativeTypes_def)

text \<open>
  Claim C6 does not hold of the code for the markup \<^verbatim>\<open>null\<close>: \<^verbatim>\<open>json.Unmarshal\<close>
  succeeds on it and leaves \<^verbatim>\<open>nativeMarkup\<close> nil, and the test
  \<^verbatim>\<open>len(nativeMarkup.Assets) == 0\<close> then dereferences the nil pointer.
\<close>

theorem addNativeTypes_null_markup:
  assumes "UnmarshalResponse json (AdM b) = Inr None"
  shows "addNativeTypes json (Some b) request = Panic"
  using assms by (simp add: addNativeTypes_def)

theorem addNativeTypes_null_markup_witness:
  "UnmarshalResponse exJson (AdM (exBid ''b3'' ''null'')) = Inr None \<and>
   addNativeTypes exJson (Some (exBid ''b3'' ''null'')) (exRequest [''USD'']) = Panic"
proof -
  have a: "UnmarshalResponse exJson (AdM (exBid ''b3'' ''null'')) = Inr None"
    by (simp add: exJson_def exBid_def)
  from addNativeTypes_null_markup[OF a] a show ?thesis by simp
qed

subsection \<open>Enrichment against zero types\<close>

text \<open>
  The part of claim C7 that lies in this file: when every image and data asset of the
  native request has type 0, \<open>setAssetTypes\<close> changes no asset, so \<open>addNativeTypes\<close>
  returns the markup as it was parsed. What \<^verbatim>\<open>json.Marshal\<close> then writes for it is
  outside the model.
\<close>

lemma getAssetByID_mem:
  "getAssetByID n assets = Inr a \<Longrightarrow> a \<in> set assets"
  by (induction assets) (auto split: if_splits)

lemma setImgType_zero:
  assumes "\<forall>a \<in> set (Request_Assets p). \<forall>i. ReqAsset_Img a = Some i \<longrightarrow> ReqImg_Type i = 0"
  shows "fst (setImgType asset p) = asset"
  using assms
  by (auto simp: setImgType_def split: option.splits sum.splits dest!: getAssetByID_mem)

lemma setDataType_zero:
  assumes "\<forall>a \<in> set (Request_Assets p). \<forall>d. ReqAsset_Data a = Some d \<longrightarrow> ReqData_Type d = 0"
  shows "fst (setDataType asset p) = asset"
  using assms
  by (auto simp: setDataType_def split: option.splits sum.splits dest!: getAssetByID_mem)

lemma setAssetTypes_zero:
  assumes "\<forall>a \<in> set (Request_Assets p). \<forall>i. ReqAsset_Img a = Some i \<longrightarrow> ReqImg_Type i = 0"
    and "\<forall>a \<in> set (Request_Assets p). \<forall>d. ReqAsset_Data a = Some d \<longrightarrow> ReqData_Type d = 0"
  shows "fst (setAssetTypes asset p) = asset"
proof -
  obtain a1 r where i: "setImgType asset p = (a1, r)" by (cases "setImgType asset p")
  with setImgType_zero[OF assms(1), of asset] have a1: "a1 = asset" by simp
  show ?thesis
  proof (cases r)
    case None
    with i a1 setDataType_zero[OF assms(2), of asset] show ?thesis
      by (simp add: setAssetTypes_def)
  next
    case (Some e)
    with i a1 show ?thesis by (simp add: setAssetTypes_def)
  qed
qed

lemma setAllAssetTypes_zero:
  assumes "\<forall>a \<in> set (Request_Assets p). \<forall>i. ReqAsset_Img a = Some i \<longrightarrow> ReqImg_Type i = 0"
    and "\<forall>a \<in> set (Request_Assets p). \<forall>d. ReqAsset_Data a = Some d \<longrightarrow> ReqData_Type d = 0"
  shows "fst (setAllAssetTypes assets p errs) = assets"
proof (induction assets arbitrary: errs)
  case Nil
  then show ?case by simp
next
  case (Cons asset assets)
  obtain a1 r where one: "setAssetTypes asset p = (a1, r)" by (cases "setAssetTypes asset p")
  with setAssetTypes_zero[OF assms, of asset] have a1: "a1 = asset" by simp
  let ?errs1 = "case r of Some e \<Rightarrow> errs @ [e] | None \<Rightarrow> errs"
  obtain as1 es1 where rest: "setAllAssetTypes assets p ?errs1 = (as1, es1)"
    by (cases "setAllAssetTypes assets p ?errs1")
  with Cons.IH[of ?errs1] have "as1 = assets" by simp
  with one a1 rest show ?case by simp
qed

lemma addNativeTypes_zero_types:
  assumes "UnmarshalResponse json (AdM b) = Inr (Some m)"
    and "Assets m \<noteq> []"
    and "getNativeImpByImpID (ImpID b) (Request_Imp request) = Inr nativeImp"
    and "UnmarshalRequest json (Native_Request nativeImp) = (p, r)"
    and "\<forall>a \<in> set (Request_Assets p). \<forall>i. ReqAsset_Img a = Some i \<longrightarrow> ReqImg_Type i = 0"
    and "\<forall>a \<in> set (Request_Assets p). \<forall>d. ReqAsset_Data a = Some d \<longrightarrow> ReqData_Type d = 0"
  shows "\<exists>errs. addNativeTypes json (Some b) request = Returned (Some m, errs)"
proof -
  let ?errs0 = "case r of Some e \<Rightarrow> [e] | None \<Rightarrow> []"
  obtain as1 es1 where loop: "setAllAssetTypes (Assets m) p ?errs0 = (as1, es1)"
    by (cases "setAllAssetTypes (Assets m) p ?errs0")
  with setAllAssetTypes_zero[OF assms(5,6), of "Assets m" ?errs0] have "as1 = Assets m" by simp
  with assms(1-4) loop show ?thesis by (simp add: addNativeTypes_def)
qed

text \<open>A type that is not 0 is copied into the asset of the response.\<close>

lemma setAssetTypes_example:
  "setAssetTypes
     \<lparr>Asset_ID = 2, Asset_Img = Some \<lparr>Img_Type = 0, Img_URL = ''http://cdn/a.png''\<rparr>, Asset_Data = None\<rparr>
     \<lparr>Request_Assets = [\<lparr>ReqAsset_ID = 2, ReqAsset_Img = Some \<lparr>ReqImg_Type = 3\<rparr>, ReqAsset_Data = None\<rparr>]\<rparr> =
   (\<lparr>Asset_ID = 2, Asset_Img = Some \<lparr>Img_Type = 3, Img_URL = ''http://cdn/a.png''\<rparr>, Asset_Data = None\<rparr>,
    None)"
  by (simp add: setAssetTypes_def setImgType_def setDataType_def)

end
